theory Spec2Isabelle
  imports Complex_Main
begin

section \<open>Workforce utilisation table: normalisation of the source records\<close>

text \<open>
  A shallow embedding of \<^verbatim>\<open>src/table-script.tsx\<close>: the helpers \<^verbatim>\<open>parseUtil\<close> and
  \<^verbatim>\<open>getMonthUtil\<close> and the filter/map pipeline of \<^verbatim>\<open>loadData\<close>. JavaScript's
  \<^verbatim>\<open>undefined\<close> is \<open>None\<close>, an optional field is an \<open>option\<close>, and the one place
  where the callback of \<^verbatim>\<open>map\<close> can throw (a property read on an undefined
  \<^verbatim>\<open>personData\<close>) is a value of the sum type \<open>error + _\<close>.
\<close>

subsection \<open>Numbers and the built-in \<^verbatim>\<open>parseFloat\<close>\<close>

text \<open>
  A JavaScript number is \<^verbatim>\<open>NaN\<close>, an infinity (the flag is the sign, \<open>True\<close> for
  negative), negative zero, or a finite double, which is held as the rational number
  it is equal to; \<open>Fin 0\<close> is positive zero.
\<close>

datatype jsnum = NaN | Infinity bool | NegZero | Fin rat

text \<open>
  The Number value for a positive rational \<open>a / b\<close> (ECMAScript, "the Number value
  for x"): the double nearest to it, the one with an even significand when two are
  equally near. With \<open>e\<close> the exponent of the binade of \<open>a / b\<close>, and at least
  \<open>-1022\<close> so that the values below the normal range round on the grid of the
  subnormals, the doubles around \<open>a / b\<close> are the multiples of \<open>2 ^ (e - 52)\<close>. A
  result of \<open>2 ^ 1024\<close> or more is the infinity, and a result of 0 is the underflow to
  zero.
\<close>

fun bitLength :: "nat \<Rightarrow> nat" where
  "bitLength n = (if n = 0 then 0 else Suc (bitLength (n div 2)))"

declare bitLength.simps [simp del]

text \<open>The integer part of the binary logarithm of \<open>a / b\<close>, for positive \<open>a\<close> and \<open>b\<close>.\<close>

definition floorLog2 :: "nat \<Rightarrow> nat \<Rightarrow> int" where
  "floorLog2 a b =
     (let d = int (bitLength a) - int (bitLength b)
      in if (if 0 \<le> d then 2 ^ nat d * b \<le> a else b \<le> 2 ^ nat (- d) * a)
         then d else d - 1)"

text \<open>The integer nearest to \<open>num / den\<close>, the even one of two equally near.\<close>

definition roundHalfEven :: "nat \<Rightarrow> nat \<Rightarrow> nat" where
  "roundHalfEven num den =
     (let f = num div den; r = num mod den
      in if 2 * r < den then f
         else if den < 2 * r then f + 1
         else if even f then f else f + 1)"

definition roundNumber :: "nat \<Rightarrow> nat \<Rightarrow> jsnum" where
  "roundNumber a b =
     (if a = 0 then Fin 0
      else
        let s = max (floorLog2 a b) (- 1022) - 52;
            m = (if 0 \<le> s then roundHalfEven a (b * 2 ^ nat s)
                 else roundHalfEven (a * 2 ^ nat (- s)) b)
        in if 0 \<le> s
           then (if 2 ^ 1024 \<le> m * 2 ^ nat s then Infinity False
                 else Fin (of_nat (m * 2 ^ nat s)))
           else Fin (of_nat m / 2 ^ nat (- s)))"

text \<open>
  \<^verbatim>\<open>parseFloat\<close> after ECMAScript (sec. \<^verbatim>\<open>parseFloat(string)\<close>): leading white space is
  dropped, then the longest prefix that is a \<^verbatim>\<open>StrDecimalLiteral\<close> is read, and the
  result is \<^verbatim>\<open>NaN\<close> when there is no such prefix. Strings are sequences of code units
  below 256, so the white space is TAB, LF, VT, FF, CR, SP and NBSP.
\<close>

definition isStrWhiteSpaceChar :: "char \<Rightarrow> bool" where
  "isStrWhiteSpaceChar c \<longleftrightarrow>
     (let n = (of_char c :: nat) in (9 \<le> n \<and> n \<le> 13) \<or> n = 32 \<or> n = 160)"

definition isDecimalDigit :: "char \<Rightarrow> bool" where
  "isDecimalDigit c \<longleftrightarrow> (let n = (of_char c :: nat) in 48 \<le> n \<and> n \<le> 57)"

text \<open>The mathematical value of a run of decimal digits.\<close>

definition digitsValue :: "string \<Rightarrow> nat" where
  "digitsValue ds = foldl (\<lambda>acc c. 10 * acc + (of_char c - 48)) 0 ds"

text \<open>\<^verbatim>\<open>SignedInteger\<close>: an optional sign and at least one digit.\<close>

definition signedInteger :: "string \<Rightarrow> int option" where
  "signedInteger s =
     (let neg = (take 1 s = ''-'');
          t = (if take 1 s = ''-'' \<or> take 1 s = ''+'' then drop 1 s else s);
          ds = takeWhile isDecimalDigit t
      in if ds = [] then None
         else Some (if neg then - int (digitsValue ds) else int (digitsValue ds)))"

text \<open>
  \<^verbatim>\<open>ExponentPart\<close>, optional: the exponent that follows the mantissa, and 0 when what
  follows is not a well-formed exponent (it is then not part of the prefix).
\<close>

definition exponentPart :: "string \<Rightarrow> int" where
  "exponentPart s =
     (if take 1 s = ''e'' \<or> take 1 s = ''E''
      then (case signedInteger (drop 1 s) of None \<Rightarrow> 0 | Some e \<Rightarrow> e)
      else 0)"

text \<open>The Number value for \<open>m * 10 ^ k\<close>.\<close>

definition numberValue :: "nat \<Rightarrow> int \<Rightarrow> jsnum" where
  "numberValue m k =
     (if 0 \<le> k then roundNumber (m * 10 ^ nat k) 1 else roundNumber m (10 ^ nat (- k)))"

text \<open>
  \<^verbatim>\<open>StrUnsignedDecimalLiteral\<close>: \<^verbatim>\<open>Infinity\<close>, or digits with an optional fraction,
  or a dot followed by digits, each with an optional exponent. The result is the
  magnitude, \<open>None\<close> when no prefix of the string is such a literal.
\<close>

definition strUnsignedDecimalLiteral :: "string \<Rightarrow> jsnum option" where
  "strUnsignedDecimalLiteral s =
     (if take 8 s = ''Infinity'' then Some (Infinity False)
      else
        let ip = takeWhile isDecimalDigit s;
            r1 = dropWhile isDecimalDigit s
        in if take 1 r1 = ''.''
           then
             (let fp = takeWhile isDecimalDigit (drop 1 r1);
                  r2 = dropWhile isDecimalDigit (drop 1 r1)
              in if ip = [] \<and> fp = [] then None
                 else Some (numberValue (digitsValue (ip @ fp))
                              (exponentPart r2 - int (length fp))))
           else if ip = [] then None
           else Some (numberValue (digitsValue ip) (exponentPart r1)))"

definition negate :: "jsnum \<Rightarrow> jsnum" where
  "negate x =
     (case x of
        NaN \<Rightarrow> NaN
      | Infinity b \<Rightarrow> Infinity (\<not> b)
      | NegZero \<Rightarrow> Fin 0
      | Fin q \<Rightarrow> if q = 0 then NegZero else Fin (- q))"

definition parseFloat :: "string \<Rightarrow> jsnum" where
  "parseFloat s =
     (let t = dropWhile isStrWhiteSpaceChar s
      in if take 1 t = ''-''
         then (case strUnsignedDecimalLiteral (drop 1 t) of
                 None \<Rightarrow> NaN | Some x \<Rightarrow> negate x)
         else (case strUnsignedDecimalLiteral (if take 1 t = ''+'' then drop 1 t else t) of
                 None \<Rightarrow> NaN | Some x \<Rightarrow> x))"

text \<open>
  The value that a decimal literal denotes, read off its digits by position and
  independently of the parser: the digit of a character is its place in
  \<open>0123456789\<close>.
\<close>

definition digitOf :: "char \<Rightarrow> nat" where
  "digitOf c = length (takeWhile (\<lambda>d. d \<noteq> c) ''0123456789'')"

fun decimalValue :: "string \<Rightarrow> nat" where
  "decimalValue [] = 0"
| "decimalValue (c # cs) = digitOf c * 10 ^ length cs + decimalValue cs"

subsection \<open>The data model\<close>

text \<open>
  Modelled from the spec: the type declarations \<^verbatim>\<open>SourceDataType\<close> and
  \<^verbatim>\<open>TableDataType\<close> of \<^verbatim>\<open>./types\<close>, which the script imports. A source record
  has two optional person blocks; a person block has a status, a job type, a first
  name, an optional last name and an optional utilisation block; the metrics of a
  utilisation block are optional strings, and the list of the last three months is
  optional as well, since the script reads it through \<^verbatim>\<open>?.\<close>.
\<close>

record MonthEntry =
  month :: string
  utilisationRate :: string

record UtilisationBlock =
  utilisationRateLastTwelveMonths :: "string option"
  utilisationRateYearToDate :: "string option"
  monthlyCostDifference :: "string option"
  lastThreeMonthsIndividually :: "MonthEntry list option"

record PersonBlock =
  status :: string
  jobType :: string
  firstname :: string
  lastname :: "string option"
  workforceUtilisation :: "UtilisationBlock option"

record SourceDataType =
  employees :: "PersonBlock option"
  externals :: "PersonBlock option"

text \<open>
  A row of the table, with the keys in the order of the object literal that
  \<^verbatim>\<open>loadData\<close> returns. The last field is a number, not an optional one: it is the
  result of \<^verbatim>\<open>?? 0\<close>.
\<close>

record TableDataType =
  person :: string
  past12Months :: "jsnum option"
  y2d :: "jsnum option"
  may :: "jsnum option"
  june :: "jsnum option"
  july :: "jsnum option"
  netEarningsPrevMonth :: jsnum

subsection \<open>The helpers\<close>

text \<open>\<^verbatim>\<open>val !== undefined ? parseFloat(val) : undefined\<close>\<close>

definition parseUtil :: "string option \<Rightarrow> jsnum option" where
  "parseUtil val = (case val of Some v \<Rightarrow> Some (parseFloat v) | None \<Rightarrow> None)"

text \<open>
  \<^verbatim>\<open>util?.lastThreeMonthsIndividually?.find((m) => m.month === month)?.utilisationRate\<close>,
  parsed by \<^verbatim>\<open>parseUtil\<close>. \<^verbatim>\<open>Array.prototype.find\<close> returns the first element
  that satisfies the predicate, as \<open>find\<close> does.
\<close>

definition getMonthUtil :: "UtilisationBlock option \<Rightarrow> string \<Rightarrow> jsnum option" where
  "getMonthUtil util monthName =
     parseUtil
       (case util of
          None \<Rightarrow> None
        | Some u \<Rightarrow>
            (case lastThreeMonthsIndividually u of
               None \<Rightarrow> None
             | Some ms \<Rightarrow>
                 (case find (\<lambda>m. month m = monthName) ms of
                    None \<Rightarrow> None
                  | Some m \<Rightarrow> Some (utilisationRate m))))"

text \<open>The operator \<^verbatim>\<open>??\<close> on an optional value.\<close>

definition nullish :: "'a option \<Rightarrow> 'a \<Rightarrow> 'a" where
  "nullish x d = (case x of None \<Rightarrow> d | Some v \<Rightarrow> v)"

subsection \<open>\<^verbatim>\<open>loadData\<close>: filter, then map\<close>

text \<open>Reading a property of \<^verbatim>\<open>undefined\<close> throws a \<^verbatim>\<open>TypeError\<close>.\<close>

datatype error = TypeError

text \<open>
  The callback of \<^verbatim>\<open>filter\<close>:
  \<^verbatim>\<open>row.employees?.status === "active" || row.externals?.status === "active"\<close>.
\<close>

definition rowFilter :: "SourceDataType \<Rightarrow> bool" where
  "rowFilter row \<longleftrightarrow>
     map_option status (employees row) = Some ''active'' \<or>
     map_option status (externals row) = Some ''active''"

text \<open>\<^verbatim>\<open>const personData = row.employees ?? row.externals\<close>\<close>

definition personData :: "SourceDataType \<Rightarrow> PersonBlock option" where
  "personData row = (case employees row of Some p \<Rightarrow> Some p | None \<Rightarrow> externals row)"

text \<open>
  The name: the test reads \<^verbatim>\<open>personData?.jobType\<close>, which is safe, and both branches
  of the conditional read \<^verbatim>\<open>personData.firstname\<close> unguarded, which throws when
  \<^verbatim>\<open>personData\<close> is undefined.
\<close>

definition personName :: "PersonBlock option \<Rightarrow> error + string" where
  "personName pd =
     (if map_option jobType pd = Some ''external''
      then (case pd of
              None \<Rightarrow> Inl TypeError
            | Some p \<Rightarrow> Inr (''External '' @ firstname p @ '' '' @ nullish (lastname p) ''''))
      else (case pd of
              None \<Rightarrow> Inl TypeError
            | Some p \<Rightarrow> Inr (firstname p @ '' '' @ nullish (lastname p) '''')))"

text \<open>The callback of \<^verbatim>\<open>map\<close>.\<close>

definition mapRow :: "SourceDataType \<Rightarrow> error + TableDataType" where
  "mapRow row =
     (let pd = personData row;
          util = (case pd of None \<Rightarrow> None | Some p \<Rightarrow> workforceUtilisation p)
      in case personName pd of
           Inl e \<Rightarrow> Inl e
         | Inr name \<Rightarrow>
             Inr \<lparr> person = name,
                   past12Months =
                     parseUtil (case util of None \<Rightarrow> None
                                | Some u \<Rightarrow> utilisationRateLastTwelveMonths u),
                   y2d =
                     parseUtil (case util of None \<Rightarrow> None
                                | Some u \<Rightarrow> utilisationRateYearToDate u),
                   may = getMonthUtil util ''May'',
                   june = getMonthUtil util ''June'',
                   july = getMonthUtil util ''July'',
                   netEarningsPrevMonth =
                     nullish (parseUtil (case util of None \<Rightarrow> None
                                         | Some u \<Rightarrow> monthlyCostDifference u))
                             (Fin 0) \<rparr>)"

text \<open>
  \<^verbatim>\<open>Array.prototype.map\<close> with a callback that may throw: the first exception
  aborts the whole pass.
\<close>

fun mapE :: "('a \<Rightarrow> error + 'b) \<Rightarrow> 'a list \<Rightarrow> error + 'b list" where
  "mapE f [] = Inr []"
| "mapE f (x # xs) =
     (case f x of
        Inl e \<Rightarrow> Inl e
      | Inr y \<Rightarrow> (case mapE f xs of Inl e \<Rightarrow> Inl e | Inr ys \<Rightarrow> Inr (y # ys)))"

text \<open>The rows that \<^verbatim>\<open>loadData\<close> hands to \<^verbatim>\<open>setTableData\<close>.\<close>

definition loadData :: "SourceDataType list \<Rightarrow> error + TableDataType list" where
  "loadData sourceData = mapE mapRow (filter rowFilter sourceData)"

subsection \<open>Sample records\<close>

text \<open>
  A utilisation block with two entries for May, an inactive internal employee without
  a last name who carries it, an active external without a utilisation block, and
  four source records built from them.
\<close>

definition sampleUtil :: UtilisationBlock where
  "sampleUtil =
     \<lparr> utilisationRateLastTwelveMonths = Some ''0.8'',
       utilisationRateYearToDate = None,
       monthlyCostDifference = None,
       lastThreeMonthsIndividually =
         Some [\<lparr>month = ''May'', utilisationRate = ''0.5''\<rparr>,
               \<lparr>month = ''May'', utilisationRate = ''0.9''\<rparr>] \<rparr>"

definition sampleAna :: PersonBlock where
  "sampleAna =
     \<lparr> status = ''inactive'', jobType = ''internal'', firstname = ''Ana'',
       lastname = None, workforceUtilisation = Some sampleUtil \<rparr>"

definition sampleJo :: PersonBlock where
  "sampleJo =
     \<lparr> status = ''active'', jobType = ''external'', firstname = ''Jo'',
       lastname = Some ''Lin'', workforceUtilisation = None \<rparr>"

definition sampleBoth :: SourceDataType where
  "sampleBoth = \<lparr>employees = Some sampleAna, externals = Some sampleJo\<rparr>"

definition sampleExternal :: SourceDataType where
  "sampleExternal = \<lparr>employees = None, externals = Some sampleJo\<rparr>"

definition sampleInactive :: SourceDataType where
  "sampleInactive = \<lparr>employees = Some sampleAna, externals = None\<rparr>"

definition sampleAbsent :: SourceDataType where
  "sampleAbsent = \<lparr>employees = None, externals = None\<rparr>"

lemmas sample_defs =
  sampleUtil_def sampleAna_def sampleJo_def sampleBoth_def sampleExternal_def
  sampleInactive_def sampleAbsent_def

lemmas roundNumber_defs =
  roundNumber_def roundHalfEven_def floorLog2_def bitLength.simps Let_def

lemmas parseFloat_defs =
  parseFloat_def strUnsignedDecimalLiteral_def numberValue_def exponentPart_def
  signedInteger_def digitsValue_def isDecimalDigit_def isStrWhiteSpaceChar_def negate_def
  roundNumber_defs

lemmas loadData_defs =
  loadData_def rowFilter_def mapRow_def personData_def personName_def nullish_def
  getMonthUtil_def parseUtil_def

section \<open>Properties of the filter and of the callback of map\<close>

lemma rowFilter_iff:
  "rowFilter r \<longleftrightarrow>
     (\<exists>p. employees r = Some p \<and> status p = ''active'') \<or>
     (\<exists>p. externals r = Some p \<and> status p = ''active'')"
  unfolding rowFilter_def by (cases "employees r"; cases "externals r") auto

lemma personData_Some: "rowFilter r \<Longrightarrow> \<exists>p. personData r = Some p"
  unfolding rowFilter_def personData_def
  by (cases "employees r"; cases "externals r") auto

lemma personName_Some:
  "personName (Some p) =
     Inr ((if jobType p = ''external'' then ''External '' else '''') @
          firstname p @ '' '' @ (case lastname p of None \<Rightarrow> '''' | Some l \<Rightarrow> l))"
  by (simp add: personName_def nullish_def)

lemma mapRow_Some: "personData r = Some p \<Longrightarrow> \<exists>row. mapRow r = Inr row"
  by (simp add: mapRow_def Let_def personName_Some)

lemma mapRow_total: "rowFilter r \<Longrightarrow> \<exists>row. mapRow r = Inr row"
  using personData_Some mapRow_Some by blast

lemma mapRow_person:
  "personData r = Some p \<Longrightarrow>
     \<exists>row. mapRow r = Inr row \<and>
       person row = (if jobType p = ''external'' then ''External '' else '''') @
                    firstname p @ '' '' @ (case lastname p of None \<Rightarrow> '''' | Some l \<Rightarrow> l)"
  by (simp add: mapRow_def Let_def personName_Some)

lemma mapRow_netEarnings:
  "personData r = Some p \<Longrightarrow>
     \<exists>row. mapRow r = Inr row \<and>
       netEarningsPrevMonth row =
         (case workforceUtilisation p of
            None \<Rightarrow> Fin 0
          | Some u \<Rightarrow> (case monthlyCostDifference u of None \<Rightarrow> Fin 0 | Some s \<Rightarrow> parseFloat s))"
  by (simp add: mapRow_def Let_def personName_Some nullish_def parseUtil_def
      split: option.splits)

lemma mapRow_depends_on_personData:
  "personData r = personData r' \<Longrightarrow> mapRow r = mapRow r'"
  by (simp add: mapRow_def)

section \<open>Properties of the pass over the list\<close>

lemma mapE_append:
  "mapE f xs = Inr a \<Longrightarrow> mapE f ys = Inr b \<Longrightarrow> mapE f (xs @ ys) = Inr (a @ b)"
  by (induction xs arbitrary: a) (auto split: sum.splits)

lemma mapE_total:
  "(\<And>x. x \<in> set xs \<Longrightarrow> \<exists>y. f x = Inr y) \<Longrightarrow>
     \<exists>ys. mapE f xs = Inr ys \<and> list_all2 (\<lambda>x y. f x = Inr y) xs ys"
proof (induction xs)
  case Nil
  then show ?case by simp
next
  case (Cons x xs)
  from Cons.prems obtain y where y: "f x = Inr y" by auto
  from Cons obtain ys where ys: "mapE f xs = Inr ys" "list_all2 (\<lambda>x y. f x = Inr y) xs ys"
    by auto
  from y ys show ?case by simp
qed

lemma loadData_rows:
  "\<exists>rows. loadData recs = Inr rows \<and>
          list_all2 (\<lambda>r row. mapRow r = Inr row) (filter rowFilter recs) rows"
  unfolding loadData_def by (rule mapE_total) (simp add: mapRow_total)

lemma loadData_Nil: "loadData [] = Inr []"
  by (simp add: loadData_def)

lemma loadData_append:
  "loadData xs = Inr a \<Longrightarrow> loadData ys = Inr b \<Longrightarrow> loadData (xs @ ys) = Inr (a @ b)"
  by (simp add: loadData_def mapE_append)

lemma loadData_single: "rowFilter r \<Longrightarrow> mapRow r = Inr row \<Longrightarrow> loadData [r] = Inr [row]"
  by (simp add: loadData_def)

lemma loadData_insert_selected:
  assumes "rowFilter r"
  shows "\<exists>a row b. loadData xs = Inr a \<and> mapRow r = Inr row \<and> loadData ys = Inr b \<and>
           loadData (xs @ r # ys) = Inr (a @ row # b)"
proof -
  obtain a where a: "loadData xs = Inr a" using loadData_rows by blast
  obtain b where b: "loadData ys = Inr b" using loadData_rows by blast
  obtain row where row: "mapRow r = Inr row" using mapRow_total [OF assms] by blast
  have "loadData (r # ys) = Inr (row # b)"
    using loadData_append [OF loadData_single [OF assms row] b] by simp
  from loadData_append [OF a this] a b row show ?thesis by blast
qed

lemma loadData_insert_dropped:
  "\<not> rowFilter r \<Longrightarrow> loadData (xs @ r # ys) = loadData (xs @ ys)"
  by (simp add: loadData_def)

lemma find_first_match:
  "\<forall>x\<in>set pre. \<not> P x \<Longrightarrow> P e \<Longrightarrow> find P (pre @ e # post) = Some e"
  by (induction pre) auto

lemma find_no_match: "\<forall>x\<in>set es. \<not> P x \<Longrightarrow> find P es = None"
  by (simp add: find_None_iff)

section \<open>The claims\<close>

subsection \<open>Selection\<close>

text \<open>
  C1. A record contributes a row to the output of \<open>loadData\<close> if and only if its
  employees block has status \<open>active\<close> or its externals block has status \<open>active\<close>:
  inserted anywhere into a list, a record with an active block adds exactly its own
  row at that place, and any other record leaves the output as it was. In particular
  a record with both blocks absent is excluded.
\<close>

theorem selection_iff_active:
  "((\<exists>p. employees r = Some p \<and> status p = ''active'') \<or>
    (\<exists>p. externals r = Some p \<and> status p = ''active'')
      \<longrightarrow> (\<exists>a row b. loadData xs = Inr a \<and> mapRow r = Inr row \<and> loadData ys = Inr b \<and>
             loadData (xs @ r # ys) = Inr (a @ row # b)))
   \<and> (\<not> ((\<exists>p. employees r = Some p \<and> status p = ''active'') \<or>
          (\<exists>p. externals r = Some p \<and> status p = ''active''))
      \<longrightarrow> loadData (xs @ r # ys) = loadData (xs @ ys))
   \<and> (employees r = None \<and> externals r = None
      \<longrightarrow> loadData (xs @ r # ys) = loadData (xs @ ys))"
proof (intro conjI impI)
  assume "(\<exists>p. employees r = Some p \<and> status p = ''active'') \<or>
          (\<exists>p. externals r = Some p \<and> status p = ''active'')"
  then have "rowFilter r" by (simp add: rowFilter_iff)
  then show "\<exists>a row b. loadData xs = Inr a \<and> mapRow r = Inr row \<and> loadData ys = Inr b \<and>
             loadData (xs @ r # ys) = Inr (a @ row # b)"
    by (rule loadData_insert_selected)
next
  assume "\<not> ((\<exists>p. employees r = Some p \<and> status p = ''active'') \<or>
             (\<exists>p. externals r = Some p \<and> status p = ''active''))"
  then have "\<not> rowFilter r" by (simp add: rowFilter_iff)
  then show "loadData (xs @ r # ys) = loadData (xs @ ys)"
    by (rule loadData_insert_dropped)
next
  assume "employees r = None \<and> externals r = None"
  then have "\<not> rowFilter r" by (simp add: rowFilter_def)
  then show "loadData (xs @ r # ys) = loadData (xs @ ys)"
    by (rule loadData_insert_dropped)
qed

text \<open>
  At the sample records: the record selected through its externals block adds one row
  after the row of the record before it, and the record without blocks and the
  record whose only block is inactive add none.
\<close>

theorem selection_iff_active_witness:
  "(\<exists>p. externals sampleBoth = Some p \<and> status p = ''active'')
   \<and> (\<exists>a row. loadData [sampleExternal] = Inr a \<and> mapRow sampleBoth = Inr row \<and>
         loadData [sampleExternal, sampleBoth] = Inr (a @ [row]))
   \<and> employees sampleAbsent = None \<and> externals sampleAbsent = None
   \<and> loadData [sampleExternal, sampleAbsent] = loadData [sampleExternal]
   \<and> \<not> ((\<exists>p. employees sampleInactive = Some p \<and> status p = ''active'') \<or>
         (\<exists>p. externals sampleInactive = Some p \<and> status p = ''active''))
   \<and> loadData [sampleInactive, sampleExternal] = loadData [sampleExternal]"
proof -
  have act: "\<exists>p. externals sampleBoth = Some p \<and> status p = ''active''"
    by (simp add: sample_defs)
  have abs: "employees sampleAbsent = None \<and> externals sampleAbsent = None"
    by (simp add: sample_defs)
  have ina: "\<not> ((\<exists>p. employees sampleInactive = Some p \<and> status p = ''active'') \<or>
               (\<exists>p. externals sampleInactive = Some p \<and> status p = ''active''))"
    by (simp add: sample_defs)
  from selection_iff_active [of sampleBoth "[sampleExternal]" "[]"] act
  have 1: "\<exists>a row. loadData [sampleExternal] = Inr a \<and> mapRow sampleBoth = Inr row \<and>
         loadData [sampleExternal, sampleBoth] = Inr (a @ [row])"
    by (auto simp add: loadData_Nil)
  from selection_iff_active [of sampleAbsent "[sampleExternal]" "[]"] abs
  have 2: "loadData [sampleExternal, sampleAbsent] = loadData [sampleExternal]"
    by simp
  from selection_iff_active [of sampleInactive "[]" "[sampleExternal]"] ina
  have 3: "loadData [sampleInactive, sampleExternal] = loadData [sampleExternal]"
    by simp
  from act abs ina 1 2 3 show ?thesis by blast
qed

subsection \<open>Which block the row is built from\<close>



subsection \<open>Net earnings of the previous month\<close>

text \<open>
  C3, as the code has it. For a record that passes the filter, the row exists and its
  \<open>netEarningsPrevMonth\<close> is a number, never undefined: it is exactly 0 when the
  chosen person has no utilisation block or the block has no \<open>monthlyCostDifference\<close>,
  and otherwise it is whatever \<open>parseFloat\<close> returns for that string, which is
  \<open>NaN\<close> for an unparseable one (the operator \<^verbatim>\<open>??\<close> replaces undefined only).
\<close>

theorem netEarnings_value:
  assumes "rowFilter r"
  shows "\<exists>p row. personData r = Some p \<and> mapRow r = Inr row \<and>
           netEarningsPrevMonth row =
             (case workforceUtilisation p of
                None \<Rightarrow> Fin 0
              | Some u \<Rightarrow>
                  (case monthlyCostDifference u of None \<Rightarrow> Fin 0 | Some s \<Rightarrow> parseFloat s))"
  using personData_Some [OF assms] mapRow_netEarnings by blast

text \<open>At the sample record without a utilisation block the field is 0.\<close>

theorem netEarnings_value_witness:
  "rowFilter sampleExternal
   \<and> (\<exists>row. mapRow sampleExternal = Inr row \<and> netEarningsPrevMonth row = Fin 0)"
proof -
  have f: "rowFilter sampleExternal" by (simp add: rowFilter_def sample_defs)
  have p: "personData sampleExternal = Some sampleJo"
    by (simp add: personData_def sample_defs)
  have w: "workforceUtilisation sampleJo = None" by (simp add: sample_defs)
  from netEarnings_value [OF f] p w f show ?thesis by auto
qed

text \<open>
  C3 as the spec states it fails: an active employee whose \<open>monthlyCostDifference\<close>
  is the unparseable string \<open>abc\<close> gets the net earnings \<open>NaN\<close>, not 0.
\<close>

theorem netEarnings_unparseable_counterexample:
  "rowFilter
     \<lparr> employees = Some
         \<lparr> status = ''active'', jobType = ''internal'', firstname = ''Ana'',
           lastname = None,
           workforceUtilisation = Some
             \<lparr> utilisationRateLastTwelveMonths = None,
               utilisationRateYearToDate = None,
               monthlyCostDifference = Some ''abc'',
               lastThreeMonthsIndividually = None \<rparr> \<rparr>,
       externals = None \<rparr>
   \<and> parseFloat ''abc'' = NaN
   \<and> loadData
       [\<lparr> employees = Some
           \<lparr> status = ''active'', jobType = ''internal'', firstname = ''Ana'',
             lastname = None,
             workforceUtilisation = Some
               \<lparr> utilisationRateLastTwelveMonths = None,
                 utilisationRateYearToDate = None,
                 monthlyCostDifference = Some ''abc'',
                 lastThreeMonthsIndividually = None \<rparr> \<rparr>,
          externals = None \<rparr>]
     = Inr [\<lparr> person = ''Ana '', past12Months = None, y2d = None, may = None,
              june = None, july = None, netEarningsPrevMonth = NaN \<rparr>]
   \<and> NaN \<noteq> Fin 0"
  by (simp add: loadData_defs parseFloat_defs)

subsection \<open>The parsing utility and totality of the pass\<close>




subsection \<open>The name\<close>

text \<open>
  C5. For a record that passes the filter, the person string of the row is the first
  name, a space and the last name, the last name being the empty string when absent
  (so that the space is then trailing), prefixed with \<open>External \<close> exactly when the
  job type of the chosen block is \<open>external\<close>; the same block gives the same row
  under the employees key and under the externals key.
\<close>

theorem person_name:
  "(rowFilter r \<longrightarrow>
      (\<exists>p row. personData r = Some p \<and> mapRow r = Inr row \<and>
         person row = (if jobType p = ''external'' then ''External '' else '''') @
                      firstname p @ '' '' @
                      (case lastname p of None \<Rightarrow> '''' | Some l \<Rightarrow> l)))
   \<and> mapRow \<lparr>employees = Some q, externals = None\<rparr> =
     mapRow \<lparr>employees = None, externals = Some q\<rparr>"
proof (intro conjI impI)
  assume "rowFilter r"
  from personData_Some [OF this] mapRow_person
  show "\<exists>p row. personData r = Some p \<and> mapRow r = Inr row \<and>
         person row = (if jobType p = ''external'' then ''External '' else '''') @
                      firstname p @ '' '' @
                      (case lastname p of None \<Rightarrow> '''' | Some l \<Rightarrow> l)"
    by blast
next
  show "mapRow \<lparr>employees = Some q, externals = None\<rparr> =
        mapRow \<lparr>employees = None, externals = Some q\<rparr>"
    by (intro mapRow_depends_on_personData) (simp add: personData_def)
qed

text \<open>
  The two names of the spec: the external Jo Lin, under either key, and the internal
  Ana without a last name.
\<close>

theorem person_name_witness:
  "rowFilter sampleExternal
   \<and> (\<exists>row. mapRow sampleExternal = Inr row \<and> person row = ''External Jo Lin'')
   \<and> (\<exists>row. mapRow \<lparr>employees = Some sampleJo, externals = None\<rparr> = Inr row \<and>
         person row = ''External Jo Lin'')
   \<and> rowFilter sampleBoth
   \<and> (\<exists>row. mapRow sampleBoth = Inr row \<and> person row = ''Ana '')"
proof -
  have f1: "rowFilter sampleExternal" by (simp add: rowFilter_def sample_defs)
  have f2: "rowFilter sampleBoth" by (simp add: rowFilter_def sample_defs)
  have p1: "personData sampleExternal = Some sampleJo"
    by (simp add: personData_def sample_defs)
  have p2: "personData sampleBoth = Some sampleAna"
    by (simp add: personData_def sample_defs)
  have n1: "(if jobType sampleJo = ''external'' then ''External '' else '''') @
        firstname sampleJo @ '' '' @
        (case lastname sampleJo of None \<Rightarrow> '''' | Some l \<Rightarrow> l) = ''External Jo Lin''"
    by (simp add: sample_defs)
  have n2: "(if jobType sampleAna = ''external'' then ''External '' else '''') @
        firstname sampleAna @ '' '' @
        (case lastname sampleAna of None \<Rightarrow> '''' | Some l \<Rightarrow> l) = ''Ana ''"
    by (simp add: sample_defs)
  from person_name [of sampleExternal sampleJo] f1 p1 n1
  have 1: "\<exists>row. mapRow sampleExternal = Inr row \<and> person row = ''External Jo Lin''"
    and k: "mapRow \<lparr>employees = Some sampleJo, externals = None\<rparr> = mapRow sampleExternal"
    by (auto simp add: sampleExternal_def)
  from person_name [of sampleBoth sampleJo] f2 p2 n2
  have 2: "\<exists>row. mapRow sampleBoth = Inr row \<and> person row = ''Ana ''"
    by auto
  from f1 f2 1 2 k show ?thesis by simp
qed

subsection \<open>The month lookup\<close>

text \<open>
  C6. \<open>getMonthUtil\<close> compares the month names by exact, case-sensitive string
  equality and returns the parsed \<open>utilisationRate\<close> of the first entry of
  \<open>lastThreeMonthsIndividually\<close> whose month is the one asked for, whatever follows
  it; the result is absent when no entry matches, when the list is absent and when
  the utilisation block is absent. With two entries for May, rates \<open>0.5\<close> and
  \<open>0.9\<close>, the lookup of May gives 0.5.
\<close>

theorem getMonthUtil_first_match:
  "getMonthUtil None m = None
   \<and> (lastThreeMonthsIndividually u = None \<longrightarrow> getMonthUtil (Some u) m = None)
   \<and> (lastThreeMonthsIndividually u = Some (pre @ e # post) \<and>
        (\<forall>x\<in>set pre. month x \<noteq> m) \<and> month e = m
      \<longrightarrow> getMonthUtil (Some u) m = Some (parseFloat (utilisationRate e)))
   \<and> (lastThreeMonthsIndividually u = Some es \<and> (\<forall>x\<in>set es. month x \<noteq> m)
      \<longrightarrow> getMonthUtil (Some u) m = None)
   \<and> getMonthUtil
       (Some \<lparr> utilisationRateLastTwelveMonths = a, utilisationRateYearToDate = b,
               monthlyCostDifference = c,
               lastThreeMonthsIndividually =
                 Some [\<lparr>month = ''May'', utilisationRate = ''0.5''\<rparr>,
                       \<lparr>month = ''May'', utilisationRate = ''0.9''\<rparr>] \<rparr>)
       ''May'' = Some (Fin (1 / 2))"
proof (intro conjI impI)
  show "getMonthUtil None m = None" by (simp add: getMonthUtil_def parseUtil_def)
next
  assume "lastThreeMonthsIndividually u = None"
  then show "getMonthUtil (Some u) m = None" by (simp add: getMonthUtil_def parseUtil_def)
next
  assume a: "lastThreeMonthsIndividually u = Some (pre @ e # post) \<and>
        (\<forall>x\<in>set pre. month x \<noteq> m) \<and> month e = m"
  then have "find (\<lambda>x. month x = m) (pre @ e # post) = Some e"
    by (intro find_first_match) auto
  with a show "getMonthUtil (Some u) m = Some (parseFloat (utilisationRate e))"
    by (simp add: getMonthUtil_def parseUtil_def)
next
  assume a: "lastThreeMonthsIndividually u = Some es \<and> (\<forall>x\<in>set es. month x \<noteq> m)"
  then have "find (\<lambda>x. month x = m) es = None"
    by (intro find_no_match) auto
  with a show "getMonthUtil (Some u) m = None"
    by (simp add: getMonthUtil_def parseUtil_def)
next
  show "getMonthUtil
       (Some \<lparr> utilisationRateLastTwelveMonths = a, utilisationRateYearToDate = b,
               monthlyCostDifference = c,
               lastThreeMonthsIndividually =
                 Some [\<lparr>month = ''May'', utilisationRate = ''0.5''\<rparr>,
                       \<lparr>month = ''May'', utilisationRate = ''0.9''\<rparr>] \<rparr>)
       ''May'' = Some (Fin (1 / 2))"
    by (simp add: getMonthUtil_def parseUtil_def parseFloat_defs)
qed

text \<open>
  At the sample block, whose two entries are both for May: the lookup of May returns
  the rate of the first one, and the lower-case name and June match no entry.
\<close>

theorem getMonthUtil_first_match_witness:
  "lastThreeMonthsIndividually sampleUtil =
     Some ([] @ \<lparr>month = ''May'', utilisationRate = ''0.5''\<rparr> #
           [\<lparr>month = ''May'', utilisationRate = ''0.9''\<rparr>])
   \<and> getMonthUtil (Some sampleUtil) ''May'' = Some (parseFloat ''0.5'')
   \<and> getMonthUtil (Some sampleUtil) ''may'' = None
   \<and> getMonthUtil (Some sampleUtil) ''June'' = None"
proof -
  have l: "lastThreeMonthsIndividually sampleUtil =
     Some ([] @ \<lparr>month = ''May'', utilisationRate = ''0.5''\<rparr> #
           [\<lparr>month = ''May'', utilisationRate = ''0.9''\<rparr>])"
    by (simp add: sample_defs)
  have n: "\<forall>x\<in>set [\<lparr>month = ''May'', utilisationRate = ''0.5''\<rparr>,
                 \<lparr>month = ''May'', utilisationRate = ''0.9''\<rparr>]. month x \<noteq> ''may''"
    by simp
  have j: "\<forall>x\<in>set [\<lparr>month = ''May'', utilisationRate = ''0.5''\<rparr>,
                 \<lparr>month = ''May'', utilisationRate = ''0.9''\<rparr>]. month x \<noteq> ''June''"
    by simp
  from getMonthUtil_first_match
    [of "''May''" sampleUtil "[]" "\<lparr>month = ''May'', utilisationRate = ''0.5''\<rparr>"
        "[\<lparr>month = ''May'', utilisationRate = ''0.9''\<rparr>]"] l
  have 1: "getMonthUtil (Some sampleUtil) ''May'' = Some (parseFloat ''0.5'')"
    by simp
  from getMonthUtil_first_match
    [of "''may''" sampleUtil _ _ _
        "[\<lparr>month = ''May'', utilisationRate = ''0.5''\<rparr>,
          \<lparr>month = ''May'', utilisationRate = ''0.9''\<rparr>]"] l n
  have 2: "getMonthUtil (Some sampleUtil) ''may'' = None"
    by simp
  from getMonthUtil_first_match
    [of "''June''" sampleUtil _ _ _
        "[\<lparr>month = ''May'', utilisationRate = ''0.5''\<rparr>,
          \<lparr>month = ''May'', utilisationRate = ''0.9''\<rparr>]"] l j
  have 3: "getMonthUtil (Some sampleUtil) ''June'' = None"
    by simp
  from l 1 2 3 show ?thesis by blast
qed

subsection \<open>Order\<close>

text \<open>
  C7. The rows of the output are, in order, the rows of the records that pass the
  filter: the output is position by position the image of the filtered input. If a
  selected record A stands before a selected record B in the input, the row of A
  stands before the row of B in the output, with the rows of the records before,
  between and after them around in the same order.
\<close>

theorem loadData_preserves_order:
  "(\<exists>rows. loadData recs = Inr rows \<and>
      list_all2 (\<lambda>r row. mapRow r = Inr row) (filter rowFilter recs) rows)
   \<and> (rowFilter a \<and> rowFilter b \<longrightarrow>
        (\<exists>r1 ra r2 rb r3.
           loadData xs = Inr r1 \<and> mapRow a = Inr ra \<and> loadData ys = Inr r2 \<and>
           mapRow b = Inr rb \<and> loadData zs = Inr r3 \<and>
           loadData (xs @ a # ys @ b # zs) = Inr (r1 @ ra # r2 @ rb # r3)))"
proof (intro conjI impI)
  show "\<exists>rows. loadData recs = Inr rows \<and>
      list_all2 (\<lambda>r row. mapRow r = Inr row) (filter rowFilter recs) rows"
    by (rule loadData_rows)
next
  assume ab: "rowFilter a \<and> rowFilter b"
  from ab loadData_insert_selected [of b ys zs]
  obtain r2 rb r3 where 1: "loadData ys = Inr r2" "mapRow b = Inr rb" "loadData zs = Inr r3"
    "loadData (ys @ b # zs) = Inr (r2 @ rb # r3)" by blast
  from ab loadData_insert_selected [of a xs "ys @ b # zs"]
  obtain r1 ra t where 2: "loadData xs = Inr r1" "mapRow a = Inr ra"
    "loadData (ys @ b # zs) = Inr t" "loadData (xs @ a # ys @ b # zs) = Inr (r1 @ ra # t)"
    by blast
  from 1 2 have "t = r2 @ rb # r3" by simp
  with 1 2 show "\<exists>r1 ra r2 rb r3.
           loadData xs = Inr r1 \<and> mapRow a = Inr ra \<and> loadData ys = Inr r2 \<and>
           mapRow b = Inr rb \<and> loadData zs = Inr r3 \<and>
           loadData (xs @ a # ys @ b # zs) = Inr (r1 @ ra # r2 @ rb # r3)"
    by blast
qed

text \<open>
  At the sample records, with a dropped record between the two selected ones: the
  row of Jo comes first and the row of Ana second, and swapping the two records
  swaps the rows.
\<close>

theorem loadData_preserves_order_witness:
  "rowFilter sampleExternal \<and> rowFilter sampleBoth
   \<and> (\<exists>ra rb. mapRow sampleExternal = Inr ra \<and> mapRow sampleBoth = Inr rb \<and>
         person ra = ''External Jo Lin'' \<and> person rb = ''Ana '' \<and>
         loadData [sampleExternal, sampleAbsent, sampleBoth] = Inr [ra, rb] \<and>
         loadData [sampleBoth, sampleAbsent, sampleExternal] = Inr [rb, ra])"
proof -
  have f: "rowFilter sampleExternal \<and> rowFilter sampleBoth"
    by (simp add: rowFilter_def sample_defs)
  have d: "loadData [sampleAbsent] = Inr []"
    by (simp add: loadData_def rowFilter_def sample_defs)
  have pa: "\<And>ra. mapRow sampleExternal = Inr ra \<Longrightarrow> person ra = ''External Jo Lin''"
    by (auto simp add: loadData_defs sample_defs)
  have pb: "\<And>rb. mapRow sampleBoth = Inr rb \<Longrightarrow> person rb = ''Ana ''"
    by (auto simp add: loadData_defs sample_defs)
  from loadData_preserves_order
    [of "[]" sampleExternal sampleBoth "[]" "[sampleAbsent]" "[]"] f d
  obtain ra rb where 1: "mapRow sampleExternal = Inr ra" "mapRow sampleBoth = Inr rb"
    "loadData [sampleExternal, sampleAbsent, sampleBoth] = Inr [ra, rb]"
    by (auto simp add: loadData_Nil)
  from loadData_preserves_order
    [of "[]" sampleBoth sampleExternal "[]" "[sampleAbsent]" "[]"] f d 1
  have 2: "loadData [sampleBoth, sampleAbsent, sampleExternal] = Inr [rb, ra]"
    by (auto simp add: loadData_Nil)
  from f 1 2 pa [OF 1(1)] pb [OF 1(2)] show ?thesis by blast
qed

subsection \<open>No read of an undefined person\<close>

text \<open>
  C10. A record that passes the filter has at least one of its two person blocks, so
  the chosen block is defined, the unguarded reads of its first and last name in the
  construction of the name do not throw, and the callback of map returns a row;
  hence the whole pass never ends in a \<open>TypeError\<close>.
\<close>

theorem filtered_record_total:
  "(rowFilter r \<longrightarrow>
      (employees r \<noteq> None \<or> externals r \<noteq> None) \<and>
      (\<exists>p. personData r = Some p \<and> (\<exists>name. personName (personData r) = Inr name)) \<and>
      (\<exists>row. mapRow r = Inr row))
   \<and> loadData recs \<noteq> Inl TypeError"
proof (intro conjI impI)
  assume f: "rowFilter r"
  then show "employees r \<noteq> None \<or> externals r \<noteq> None"
    by (auto simp add: rowFilter_def)
  from personData_Some [OF f]
  show "\<exists>p. personData r = Some p \<and> (\<exists>name. personName (personData r) = Inr name)"
    by (auto simp add: personName_Some)
  from f show "\<exists>row. mapRow r = Inr row" by (rule mapRow_total)
next
  from loadData_rows [of recs] show "loadData recs \<noteq> Inl TypeError" by auto
qed

text \<open>
  At the sample records. The record without blocks is the one on which the callback
  of map would throw, and the filter keeps it away from the callback.
\<close>

theorem filtered_record_total_witness:
  "rowFilter sampleExternal
   \<and> externals sampleExternal \<noteq> None
   \<and> (\<exists>row. mapRow sampleExternal = Inr row)
   \<and> \<not> rowFilter sampleAbsent \<and> mapRow sampleAbsent = Inl TypeError
   \<and> loadData [sampleAbsent, sampleExternal] \<noteq> Inl TypeError"
proof -
  have f: "rowFilter sampleExternal" by (simp add: rowFilter_def sample_defs)
  have e: "externals sampleExternal \<noteq> None" by (simp add: sample_defs)
  have n: "\<not> rowFilter sampleAbsent" by (simp add: rowFilter_def sample_defs)
  have t: "mapRow sampleAbsent = Inl TypeError"
    by (simp add: mapRow_def personData_def personName_def sample_defs)
  from filtered_record_total [of sampleExternal "[sampleAbsent, sampleExternal]"] f e n t
  show ?thesis by blast
qed

end
